theory Spec2Isabelle
  imports Main
begin

section \<open>JavaScript values\<close>

text \<open>
  The mixin \<open>alfresco/lists/KeyboardNavigationSuppressionMixin\<close> is untyped JavaScript: its
  handlers receive whatever the caller passes, read properties of it, and compare what they
  read with \<open>===\<close> against literals. The values are modelled by one datatype. Numbers are the
  integer key and character codes; a function is known by a reference only; an object is the
  list of its properties, looked up from the front.
\<close>

datatype jsval =
    JUndefined
  | JNull
  | JBool bool
  | JNum int
  | JStr string
  | JFunction nat
  | JObject "(string \<times> jsval) list"

text \<open>
  What a handler can raise: the \<open>TypeError\<close> of a property read from \<open>undefined\<close> or \<open>null\<close>
  (or of a call of something that is no function), and whatever a collaborator throws.
\<close>

datatype error = TypeError | Thrown jsval

text \<open>The \<open>typeof\<close> operator.\<close>

fun typeof :: "jsval \<Rightarrow> string" where
  "typeof JUndefined = ''undefined''"
| "typeof JNull = ''object''"
| "typeof (JBool b) = ''boolean''"
| "typeof (JNum n) = ''number''"
| "typeof (JStr s) = ''string''"
| "typeof (JFunction f) = ''function''"
| "typeof (JObject ps) = ''object''"

text \<open>Conversion to a boolean, as \<open>&&\<close> and \<open>||\<close> apply it to their left operand.\<close>

fun truthy :: "jsval \<Rightarrow> bool" where
  "truthy JUndefined = False"
| "truthy JNull = False"
| "truthy (JBool b) = b"
| "truthy (JNum n) = (n \<noteq> 0)"
| "truthy (JStr s) = (s \<noteq> [])"
| "truthy (JFunction f) = True"
| "truthy (JObject ps) = True"

text \<open>
  Property access \<open>v.p\<close>: reading a property of \<open>undefined\<close> or \<open>null\<close> throws a
  \<open>TypeError\<close>; an object yields the property or \<open>undefined\<close> when it has none of that name;
  the other values have none of the properties the mixin reads.
\<close>

fun member :: "jsval \<Rightarrow> string \<Rightarrow> error + jsval" where
  "member JUndefined p = Inl TypeError"
| "member JNull p = Inl TypeError"
| "member (JObject ps) p = Inr (case map_of ps p of None \<Rightarrow> JUndefined | Some v \<Rightarrow> v)"
| "member v p = Inr JUndefined"

section \<open>The widget, its collaborators, effects and outcomes\<close>

text \<open>
  The instance state the mixin touches: its own field \<open>suppressKeyNavigation\<close>, and the
  fields it expects of the widget it is mixed into (the three optional callbacks and the
  root node). Every field holds a JavaScript value, as in the source.
\<close>

record widget =
  suppressKeyNavigation :: jsval
  onEditClick :: jsval
  onCancel :: jsval
  onSave :: jsval
  domNode :: jsval

text \<open>
  The code the mixin calls and does not contain. None of it is in the repository, so it is
  a parameter of the model. Each call is made on the event loop, runs to its end before the
  handler goes on, and is not wrapped in a \<open>try\<close>:
  \<^item> \<open>callback f\<close> is the body of the function with reference \<open>f\<close>, called as a method
    (\<open>this.onEditClick()\<close>, \<open>this.onCancel()\<close>, \<open>this.onSave()\<close>): it runs with \<open>this\<close> bound to
    the widget, may write any field of it, and may throw;
  \<^item> \<open>emit target name event\<close> is \<open>on.emit\<close> of \<open>dojo/on\<close>, which runs the listeners of the
    event before it returns; a listener may belong to the widget itself;
  \<^item> \<open>inherited name evt\<close> is \<open>this.inherited(arguments)\<close> in the method \<open>name\<close>: the handler of
    \<open>dijit/_KeyNavContainer\<close> that the mixin overrides.
  Each yields the widget as it leaves it and the error it throws, if any.
  \<open>event.stop(evt)\<close> of \<open>dojo/_base/event\<close> is given the event alone and has no access to
  the widget; the model records the call and takes it to return.
\<close>

record collaborators =
  callback :: "nat \<Rightarrow> widget \<Rightarrow> widget \<times> error option"
  emit :: "jsval \<Rightarrow> string \<Rightarrow> jsval \<Rightarrow> widget \<Rightarrow> widget \<times> error option"
  inherited :: "string \<Rightarrow> jsval \<Rightarrow> widget \<Rightarrow> widget \<times> error option"

text \<open>
  The calls a handler makes, in the order it makes them: \<open>event.stop(evt)\<close>, the call of a
  callback of the widget (by the name of the field), \<open>on.emit(target, name, event)\<close>, and
  \<open>this.inherited(arguments)\<close> (by the name of the overriding method, with the argument).
\<close>

datatype effect =
    Stop jsval
  | Call string
  | Emit jsval string jsval
  | Inherited string jsval

record outcome =
  final :: widget
  effects :: "effect list"
  raised :: "error option"

definition returns :: "widget \<Rightarrow> effect list \<Rightarrow> outcome" where
  "returns self es = \<lparr>final = self, effects = es, raised = None\<rparr>"

definition throws :: "widget \<Rightarrow> effect list \<Rightarrow> error \<Rightarrow> outcome" where
  "throws self es x = \<lparr>final = self, effects = es, raised = Some x\<rparr>"

text \<open>
  A handler whose last statement is the call of a collaborator ends as the collaborator
  ends: with the widget it left and the error it threw.
\<close>

definition ends_with :: "effect list \<Rightarrow> widget \<times> error option \<Rightarrow> outcome" where
  "ends_with es r = \<lparr>final = fst r, effects = es, raised = snd r\<rparr>"

text \<open>The method call \<open>this.m()\<close> where the field \<open>m\<close> holds the value \<open>v\<close>.\<close>

definition invoke :: "collaborators \<Rightarrow> jsval \<Rightarrow> widget \<Rightarrow> widget \<times> error option" where
  "invoke c v self = (case v of JFunction f \<Rightarrow> callback c f self | _ \<Rightarrow> (self, Some TypeError))"

text \<open>
  The key codes of \<open>dojo/keys\<close> the mixin compares with. The module is not part of the
  repository, so the two codes are a parameter of the model.
\<close>

record keys =
  ESCAPE :: int
  ENTER :: int

section \<open>The operations of the mixin\<close>

text \<open>The declared default \<open>suppressKeyNavigation: false\<close> of a new instance.\<close>

definition construct :: "jsval \<Rightarrow> jsval \<Rightarrow> jsval \<Rightarrow> jsval \<Rightarrow> widget" where
  "construct edit cancel save node =
     \<lparr>suppressKeyNavigation = JBool False, onEditClick = edit, onCancel = cancel,
      onSave = save, domNode = node\<rparr>"

text \<open>
  \<open>onKeyPress\<close>: the condition reads \<open>evt.ctrlKey\<close> first and \<open>evt.charCode\<close> only when the
  first comparison held; the guard \<open>evt &&\<close> before \<open>event.stop\<close> comes after both reads; the
  callback is the last statement.
\<close>

definition onKeyPress :: "collaborators \<Rightarrow> widget \<Rightarrow> jsval \<Rightarrow> outcome" where
  "onKeyPress c self evt =
     (case member evt ''ctrlKey'' of
        Inl x \<Rightarrow> throws self [] x
      | Inr ctrlKey \<Rightarrow>
          if ctrlKey = JBool True then
            (case member evt ''charCode'' of
               Inl x \<Rightarrow> throws self [] x
             | Inr charCode \<Rightarrow>
                 if charCode = JNum 101 then
                   (if typeof (onEditClick self) = ''function''
                    then ends_with
                           ((if truthy evt then [Stop evt] else []) @ [Call ''onEditClick''])
                           (invoke c (onEditClick self) self)
                    else returns self (if truthy evt then [Stop evt] else []))
                 else returns self [])
          else returns self [])"

text \<open>
  The condition \<open>e.charOrCode === k || e.keyCode === k\<close>, which \<open>onValueEntryKeyPress\<close>
  evaluates for \<open>keys.ESCAPE\<close> and then for \<open>keys.ENTER\<close>.
\<close>

definition key_matches :: "jsval \<Rightarrow> int \<Rightarrow> error + bool" where
  "key_matches e k =
     (case member e ''charOrCode'' of
        Inl x \<Rightarrow> Inl x
      | Inr charOrCode \<Rightarrow>
          if charOrCode = JNum k then Inr True
          else (case member e ''keyCode'' of
                  Inl x \<Rightarrow> Inl x
                | Inr keyCode \<Rightarrow> Inr (keyCode = JNum k)))"

definition onValueEntryKeyPress :: "collaborators \<Rightarrow> keys \<Rightarrow> widget \<Rightarrow> jsval \<Rightarrow> outcome" where
  "onValueEntryKeyPress c ks self e =
     (case key_matches e (ESCAPE ks) of
        Inl x \<Rightarrow> throws self [] x
      | Inr is_escape \<Rightarrow>
          if is_escape then
            (if typeof (onCancel self) = ''function''
             then ends_with [Stop e, Call ''onCancel''] (invoke c (onCancel self) self)
             else returns self [Stop e])
          else
            (case key_matches e (ENTER ks) of
               Inl x \<Rightarrow> throws self [] x
             | Inr is_enter \<Rightarrow>
                 if is_enter then
                   (if typeof (onSave self) = ''function''
                    then ends_with [Stop e, Call ''onSave''] (invoke c (onSave self) self)
                    else returns self [Stop e])
                 else returns self []))"

definition suppressContainerKeyboardNavigation ::
  "collaborators \<Rightarrow> widget \<Rightarrow> jsval \<Rightarrow> jsval \<Rightarrow> outcome" where
  "suppressContainerKeyboardNavigation c self suppress node =
     ends_with
       [Emit (if truthy node then node else domNode self) ''onSuppressKeyNavigation''
          (JObject [(''bubbles'', JBool True), (''cancelable'', JBool True),
                    (''suppress'', suppress)])]
       (emit c (if truthy node then node else domNode self) ''onSuppressKeyNavigation''
          (JObject [(''bubbles'', JBool True), (''cancelable'', JBool True),
                    (''suppress'', suppress)]) self)"

definition suppressFocusRequest :: "widget \<Rightarrow> jsval \<Rightarrow> outcome" where
  "suppressFocusRequest self evt = returns self (if truthy evt then [Stop evt] else [])"

definition onSuppressKeyNavigation :: "widget \<Rightarrow> jsval \<Rightarrow> outcome" where
  "onSuppressKeyNavigation self evt =
     (case member evt ''suppress'' of
        Inl x \<Rightarrow> throws self [] x
      | Inr suppress \<Rightarrow>
          returns (self\<lparr>suppressKeyNavigation := JBool (suppress = JBool True)\<rparr>) [])"

text \<open>
  The two overrides of \<open>dijit/_KeyNavContainer\<close>, \<open>_onContainerKeypress\<close> and
  \<open>_onContainerKeydown\<close> in the source (a name cannot start with an underscore here).
\<close>

definition onContainerKeypress :: "collaborators \<Rightarrow> widget \<Rightarrow> jsval \<Rightarrow> outcome" where
  "onContainerKeypress c self evt =
     (if suppressKeyNavigation self = JBool False
      then ends_with [Inherited ''_onContainerKeypress'' evt]
             (inherited c ''_onContainerKeypress'' evt self)
      else returns self [])"

definition onContainerKeydown :: "collaborators \<Rightarrow> widget \<Rightarrow> jsval \<Rightarrow> outcome" where
  "onContainerKeydown c self evt =
     (if suppressKeyNavigation self = JBool False
      then ends_with [Inherited ''_onContainerKeydown'' evt]
             (inherited c ''_onContainerKeydown'' evt self)
      else returns self [])"

section \<open>Sequences of calls\<close>

text \<open>
  The handlers run one after the other on the event loop of the page, each to its end. An
  exception ends the handler that raised it and not the widget: the next call finds the
  state the failed one left.
\<close>

datatype op =
    OnKeyPress jsval
  | OnValueEntryKeyPress jsval
  | SuppressContainerKeyboardNavigation jsval jsval
  | SuppressFocusRequest jsval
  | OnSuppressKeyNavigation jsval
  | OnContainerKeypress jsval
  | OnContainerKeydown jsval

fun step :: "collaborators \<Rightarrow> keys \<Rightarrow> widget \<Rightarrow> op \<Rightarrow> outcome" where
  "step c ks self (OnKeyPress evt) = onKeyPress c self evt"
| "step c ks self (OnValueEntryKeyPress e) = onValueEntryKeyPress c ks self e"
| "step c ks self (SuppressContainerKeyboardNavigation suppress node) =
     suppressContainerKeyboardNavigation c self suppress node"
| "step c ks self (SuppressFocusRequest evt) = suppressFocusRequest self evt"
| "step c ks self (OnSuppressKeyNavigation evt) = onSuppressKeyNavigation self evt"
| "step c ks self (OnContainerKeypress evt) = onContainerKeypress c self evt"
| "step c ks self (OnContainerKeydown evt) = onContainerKeydown c self evt"

fun run :: "collaborators \<Rightarrow> keys \<Rightarrow> widget \<Rightarrow> op list \<Rightarrow> widget \<times> effect list" where
  "run c ks self [] = (self, [])"
| "run c ks self (x # xs) =
     (let r = step c ks self x; rest = run c ks (final r) xs
      in (fst rest, effects r @ snd rest))"

fun is_dispatch :: "op \<Rightarrow> bool" where
  "is_dispatch (OnContainerKeypress evt) = True"
| "is_dispatch (OnContainerKeydown evt) = True"
| "is_dispatch x = False"

fun is_Inherited :: "effect \<Rightarrow> bool" where
  "is_Inherited (Inherited m a) = True"
| "is_Inherited x = False"

fun is_Stop :: "effect \<Rightarrow> bool" where
  "is_Stop (Stop e) = True"
| "is_Stop x = False"

fun is_Call :: "effect \<Rightarrow> bool" where
  "is_Call (Call c) = True"
| "is_Call x = False"

section \<open>Collaborators of the examples\<close>

text \<open>
  Collaborators that return at once and touch nothing; a callback that records an edit in
  progress in the field \<open>suppressKeyNavigation\<close> of its widget; a callback that throws.
\<close>

definition quiet_callback :: "nat \<Rightarrow> widget \<Rightarrow> widget \<times> error option" where
  "quiet_callback f w = (w, None)"

definition quiet_emit :: "jsval \<Rightarrow> string \<Rightarrow> jsval \<Rightarrow> widget \<Rightarrow> widget \<times> error option" where
  "quiet_emit target name event w = (w, None)"

definition quiet_inherited :: "string \<Rightarrow> jsval \<Rightarrow> widget \<Rightarrow> widget \<times> error option" where
  "quiet_inherited name evt w = (w, None)"

definition quiet :: collaborators where
  "quiet = \<lparr>callback = quiet_callback, emit = quiet_emit, inherited = quiet_inherited\<rparr>"

definition editing_callback :: "nat \<Rightarrow> widget \<Rightarrow> widget \<times> error option" where
  "editing_callback f w = (w\<lparr>suppressKeyNavigation := JStr ''editing''\<rparr>, None)"

definition editing :: collaborators where
  "editing = \<lparr>callback = editing_callback, emit = quiet_emit, inherited = quiet_inherited\<rparr>"



section \<open>Auxiliary facts\<close>

lemma member_True_truthy: "member v p = Inr (JBool True) \<Longrightarrow> truthy v"
  by (cases v) simp_all

lemma key_matches_object:
  "key_matches (JObject ps) k =
     Inr (map_of ps ''charOrCode'' = Some (JNum k) \<or> map_of ps ''keyCode'' = Some (JNum k))"
  by (auto simp: key_matches_def split: option.splits)

lemma run_snoc:
  "run c ks self (xs @ [x]) =
     (final (step c ks (fst (run c ks self xs)) x),
      snd (run c ks self xs) @ effects (step c ks (fst (run c ks self xs)) x))"
  by (induction xs arbitrary: self) (simp_all add: Let_def)

lemma run_dispatch_suppressed:
  "suppressKeyNavigation self \<noteq> JBool False \<Longrightarrow> \<forall>x\<in>set ops. is_dispatch x \<Longrightarrow>
   run c ks self ops = (self, [])"
proof (induction ops)
  case Nil
  then show ?case by simp
next
  case (Cons x xs)
  from Cons.prems(2) have d: "is_dispatch x" by simp
  then have "step c ks self x = returns self []"
    using Cons.prems(1)
    by (cases x) (simp_all add: onContainerKeypress_def onContainerKeydown_def)
  with Cons show ?case by (simp add: returns_def)
qed

lemma onKeyPress_effects:
  "effects (onKeyPress c self e) =
     (if member e ''ctrlKey'' = Inr (JBool True) \<and> member e ''charCode'' = Inr (JNum 101)
      then Stop e # (if typeof (onEditClick self) = ''function'' then [Call ''onEditClick''] else [])
      else [])"
proof (cases "member e ''ctrlKey'' = Inr (JBool True)")
  case True
  then have "truthy e" by (rule member_True_truthy)
  with True show ?thesis
    by (simp add: onKeyPress_def returns_def throws_def ends_with_def split: sum.splits)
next
  case False
  then show ?thesis
    by (simp add: onKeyPress_def returns_def throws_def ends_with_def split: sum.splits)
qed

lemma onKeyPress_final:
  "final (onKeyPress c self e) =
     (if member e ''ctrlKey'' = Inr (JBool True) \<and> member e ''charCode'' = Inr (JNum 101)
         \<and> typeof (onEditClick self) = ''function''
      then fst (invoke c (onEditClick self) self) else self)"
  by (simp add: onKeyPress_def returns_def throws_def ends_with_def split: sum.splits)


lemma onValueEntryKeyPress_effects:
  "effects (onValueEntryKeyPress c ks self e) =
     (if key_matches e (ESCAPE ks) = Inr True
      then Stop e # (if typeof (onCancel self) = ''function'' then [Call ''onCancel''] else [])
      else if key_matches e (ESCAPE ks) = Inr False \<and> key_matches e (ENTER ks) = Inr True
      then Stop e # (if typeof (onSave self) = ''function'' then [Call ''onSave''] else [])
      else [])"
  by (simp add: onValueEntryKeyPress_def returns_def throws_def ends_with_def split: sum.splits)

lemma onValueEntryKeyPress_final:
  "final (onValueEntryKeyPress c ks self e) =
     (if key_matches e (ESCAPE ks) = Inr True \<and> typeof (onCancel self) = ''function''
      then fst (invoke c (onCancel self) self)
      else if key_matches e (ESCAPE ks) = Inr False \<and> key_matches e (ENTER ks) = Inr True
         \<and> typeof (onSave self) = ''function''
      then fst (invoke c (onSave self) self)
      else self)"
  by (simp add: onValueEntryKeyPress_def returns_def throws_def ends_with_def split: sum.splits)



lemma handler_effects_shape:
  "es = effects (onKeyPress c self e) \<or> es = effects (onValueEntryKeyPress c ks self e) \<Longrightarrow>
   es = [] \<or> es = [Stop e] \<or> (\<exists>n. es = [Stop e, Call n])"
  by (auto simp: onKeyPress_effects onValueEntryKeyPress_effects split: if_splits)

lemma invoke_preserves:
  assumes "\<And>f w. P (suppressKeyNavigation w) \<Longrightarrow> P (suppressKeyNavigation (fst (callback c f w)))"
    and "P (suppressKeyNavigation self)"
  shows "P (suppressKeyNavigation (fst (invoke c v self)))"
  using assms by (cases v) (simp_all add: invoke_def)

lemma step_preserves:
  assumes cb: "\<And>f w. P (suppressKeyNavigation w) \<Longrightarrow>
                 P (suppressKeyNavigation (fst (callback c f w)))"
    and em: "\<And>t n p w. P (suppressKeyNavigation w) \<Longrightarrow>
                 P (suppressKeyNavigation (fst (emit c t n p w)))"
    and inh: "\<And>m a w. P (suppressKeyNavigation w) \<Longrightarrow>
                 P (suppressKeyNavigation (fst (inherited c m a w)))"
    and x: "\<And>a. x \<noteq> OnSuppressKeyNavigation a"
    and self: "P (suppressKeyNavigation self)"
  shows "P (suppressKeyNavigation (final (step c ks self x)))"
proof (cases x)
  case (OnKeyPress evt)
  have "P (suppressKeyNavigation (fst (invoke c (onEditClick self) self)))"
    using cb self by (rule invoke_preserves)
  with self OnKeyPress show ?thesis by (simp add: onKeyPress_final)
next
  case (OnValueEntryKeyPress e)
  have "\<And>v. P (suppressKeyNavigation (fst (invoke c v self)))"
    using cb self by (rule invoke_preserves)
  with self OnValueEntryKeyPress show ?thesis by (simp add: onValueEntryKeyPress_final)
next
  case (SuppressContainerKeyboardNavigation s n)
  with em self show ?thesis
    by (simp add: suppressContainerKeyboardNavigation_def ends_with_def)
next
  case (SuppressFocusRequest evt)
  with self show ?thesis by (simp add: suppressFocusRequest_def returns_def)
next
  case (OnSuppressKeyNavigation evt)
  with x show ?thesis by blast
next
  case (OnContainerKeypress evt)
  have "P (suppressKeyNavigation (fst (inherited c ''_onContainerKeypress'' evt self)))"
    using self by (rule inh)
  with self OnContainerKeypress show ?thesis
    by (simp add: onContainerKeypress_def ends_with_def returns_def)
next
  case (OnContainerKeydown evt)
  have "P (suppressKeyNavigation (fst (inherited c ''_onContainerKeydown'' evt self)))"
    using self by (rule inh)
  with self OnContainerKeydown show ?thesis
    by (simp add: onContainerKeydown_def ends_with_def returns_def)
qed

lemma step_flag_boolean:
  assumes cb: "\<forall>f w. (\<exists>b. suppressKeyNavigation w = JBool b) \<longrightarrow>
                 (\<exists>b. suppressKeyNavigation (fst (callback c f w)) = JBool b)"
    and em: "\<forall>t n p w. (\<exists>b. suppressKeyNavigation w = JBool b) \<longrightarrow>
                 (\<exists>b. suppressKeyNavigation (fst (emit c t n p w)) = JBool b)"
    and inh: "\<forall>m a w. (\<exists>b. suppressKeyNavigation w = JBool b) \<longrightarrow>
                 (\<exists>b. suppressKeyNavigation (fst (inherited c m a w)) = JBool b)"
    and self: "\<exists>b. suppressKeyNavigation self = JBool b"
  shows "\<exists>b. suppressKeyNavigation (final (step c ks self x)) = JBool b"
proof (cases "\<exists>a. x = OnSuppressKeyNavigation a")
  case True
  then obtain a where "x = OnSuppressKeyNavigation a" by blast
  with self show ?thesis
    by (cases "member a ''suppress''")
       (simp_all add: onSuppressKeyNavigation_def returns_def throws_def)
next
  case False
  show ?thesis
  proof (rule step_preserves [where P = "\<lambda>v. \<exists>b. v = JBool b"])
    show "\<exists>b. suppressKeyNavigation (fst (callback c f w)) = JBool b"
      if "\<exists>b. suppressKeyNavigation w = JBool b" for f w
      using cb that by blast
    show "\<exists>b. suppressKeyNavigation (fst (emit c t n p w)) = JBool b"
      if "\<exists>b. suppressKeyNavigation w = JBool b" for t n p w
      using em that by blast
    show "\<exists>b. suppressKeyNavigation (fst (inherited c m a w)) = JBool b"
      if "\<exists>b. suppressKeyNavigation w = JBool b" for m a w
      using inh that by blast
    show "x \<noteq> OnSuppressKeyNavigation a" for a
      using False by blast
    show "\<exists>b. suppressKeyNavigation self = JBool b"
      by (rule self)
  qed
qed

lemma run_flag_boolean:
  assumes cb: "\<forall>f w. (\<exists>b. suppressKeyNavigation w = JBool b) \<longrightarrow>
                 (\<exists>b. suppressKeyNavigation (fst (callback c f w)) = JBool b)"
    and em: "\<forall>t n p w. (\<exists>b. suppressKeyNavigation w = JBool b) \<longrightarrow>
                 (\<exists>b. suppressKeyNavigation (fst (emit c t n p w)) = JBool b)"
    and inh: "\<forall>m a w. (\<exists>b. suppressKeyNavigation w = JBool b) \<longrightarrow>
                 (\<exists>b. suppressKeyNavigation (fst (inherited c m a w)) = JBool b)"
  shows "\<exists>b. suppressKeyNavigation self = JBool b \<Longrightarrow>
         \<exists>b. suppressKeyNavigation (fst (run c ks self ops)) = JBool b"
proof (induction ops arbitrary: self)
  case Nil
  then show ?case by simp
next
  case (Cons x xs)
  from cb em inh Cons.prems
  have "\<exists>b. suppressKeyNavigation (final (step c ks self x)) = JBool b"
    by (rule step_flag_boolean)
  then have "\<exists>b. suppressKeyNavigation (fst (run c ks (final (step c ks self x)) xs)) = JBool b"
    by (rule Cons.IH)
  then show ?case by (simp add: Let_def)
qed



section \<open>The claims\<close>

text \<open>
  C1. \<open>_onContainerKeypress\<close> and \<open>_onContainerKeydown\<close> hand the event to the inherited
  handler (the navigation of the container) exactly when the flag \<open>suppressKeyNavigation\<close> is
  \<open>false\<close>, and they call nothing else. While the flag is \<open>true\<close>, a sequence of any number
  of dispatched events reaches the inherited handler not once, and leaves the flag \<open>true\<close>.
\<close>

theorem dispatch_forwards_iff_not_suppressed:
  "effects (onContainerKeypress c self evt) =
     (if suppressKeyNavigation self = JBool False
      then [Inherited ''_onContainerKeypress'' evt] else [])
   \<and> effects (onContainerKeydown c self evt) =
     (if suppressKeyNavigation self = JBool False
      then [Inherited ''_onContainerKeydown'' evt] else [])
   \<and> (\<exists>m. Inherited m evt \<in> set (effects (onContainerKeypress c self evt)))
       = (suppressKeyNavigation self = JBool False)
   \<and> (\<exists>m. Inherited m evt \<in> set (effects (onContainerKeydown c self evt)))
       = (suppressKeyNavigation self = JBool False)
   \<and> (suppressKeyNavigation self = JBool True \<longrightarrow> (\<forall>x\<in>set ops. is_dispatch x) \<longrightarrow>
        filter is_Inherited (snd (run c ks self ops)) = []
        \<and> suppressKeyNavigation (fst (run c ks self ops)) = JBool True)"
proof -
  have "suppressKeyNavigation self = JBool True \<Longrightarrow> \<forall>x\<in>set ops. is_dispatch x \<Longrightarrow>
        run c ks self ops = (self, [])"
    by (rule run_dispatch_suppressed) simp_all
  then show ?thesis
    by (auto simp: onContainerKeypress_def onContainerKeydown_def returns_def ends_with_def)
qed

theorem dispatch_forwards_iff_not_suppressed_witness:
  "filter is_Inherited
     (snd (run quiet \<lparr>ESCAPE = 27, ENTER = 13\<rparr>
        ((construct JUndefined JUndefined JUndefined JNull)\<lparr>suppressKeyNavigation := JBool True\<rparr>)
        [OnContainerKeydown (JObject [(''keyCode'', JNum 40)]),
         OnContainerKeypress (JObject [(''charCode'', JNum 101)]),
         OnContainerKeydown (JObject [(''keyCode'', JNum 40)])])) = []
   \<and> effects (onContainerKeydown quiet (construct JUndefined JUndefined JUndefined JNull)
        (JObject [(''keyCode'', JNum 40)]))
      = [Inherited ''_onContainerKeydown'' (JObject [(''keyCode'', JNum 40)])]"
  using dispatch_forwards_iff_not_suppressed
    [where c = quiet and ks = "\<lparr>ESCAPE = 27, ENTER = 13\<rparr>"
       and self = "(construct JUndefined JUndefined JUndefined JNull)\<lparr>suppressKeyNavigation := JBool True\<rparr>"
       and evt = "JObject [(''keyCode'', JNum 40)]"
       and ops = "[OnContainerKeydown (JObject [(''keyCode'', JNum 40)]),
         OnContainerKeypress (JObject [(''charCode'', JNum 101)]),
         OnContainerKeydown (JObject [(''keyCode'', JNum 40)])]"]
    dispatch_forwards_iff_not_suppressed
    [where c = quiet and ks = "\<lparr>ESCAPE = 27, ENTER = 13\<rparr>"
       and self = "construct JUndefined JUndefined JUndefined JNull"
       and evt = "JObject [(''keyCode'', JNum 40)]" and ops = "[]"]
  by (simp add: construct_def onContainerKeypress_def onContainerKeydown_def returns_def
        ends_with_def Let_def)

text \<open>
  C2. After a sequence of calls of \<open>onSuppressKeyNavigation\<close>, the flag is the boolean
  \<open>evt.suppress === true\<close> of the last call: \<open>true\<close> for the literal \<open>true\<close> and \<open>false\<close> for
  any other value of the property (a truthy string or number, an object, \<open>undefined\<close> when the
  property is missing), whatever the earlier calls carried. A second call with the same
  argument leaves the widget as the first call left it.
\<close>

theorem onSuppressKeyNavigation_last_wins:
  "(evts \<noteq> [] \<longrightarrow> member (last evts) ''suppress'' = Inr v \<longrightarrow>
      suppressKeyNavigation (fst (run c ks self (map OnSuppressKeyNavigation evts)))
        = JBool (v = JBool True))
   \<and> final (onSuppressKeyNavigation (final (onSuppressKeyNavigation self evt)) evt)
       = final (onSuppressKeyNavigation self evt)"
proof -
  have a: "suppressKeyNavigation (fst (run c ks self (map OnSuppressKeyNavigation evts)))
        = JBool (v = JBool True)"
    if ne: "evts \<noteq> []" and m: "member (last evts) ''suppress'' = Inr v"
  proof -
    from ne have "map OnSuppressKeyNavigation evts =
        map OnSuppressKeyNavigation (butlast evts) @ [OnSuppressKeyNavigation (last evts)]"
      by (metis append_butlast_last_id list.simps(8,9) map_append)
    then show ?thesis
      using m by (simp add: run_snoc onSuppressKeyNavigation_def returns_def)
  qed
  have b: "final (onSuppressKeyNavigation (final (onSuppressKeyNavigation self evt)) evt)
       = final (onSuppressKeyNavigation self evt)"
    by (cases "member evt ''suppress''")
       (simp_all add: onSuppressKeyNavigation_def returns_def throws_def)
  from a b show ?thesis by blast
qed

theorem onSuppressKeyNavigation_last_wins_witness:
  "suppressKeyNavigation
     (fst (run quiet \<lparr>ESCAPE = 27, ENTER = 13\<rparr> (construct JUndefined JUndefined JUndefined JNull)
        (map OnSuppressKeyNavigation
          [JObject [(''suppress'', JBool True)], JObject [(''suppress'', JStr ''true'')]])))
     = JBool False
   \<and> suppressKeyNavigation
     (fst (run quiet \<lparr>ESCAPE = 27, ENTER = 13\<rparr> (construct JUndefined JUndefined JUndefined JNull)
        (map OnSuppressKeyNavigation
          [JObject [(''bubbles'', JBool True)], JObject [(''suppress'', JBool True)]])))
     = JBool True"
  using onSuppressKeyNavigation_last_wins
    [where evts = "[JObject [(''suppress'', JBool True)], JObject [(''suppress'', JStr ''true'')]]"
       and v = "JStr ''true''" and c = quiet and ks = "\<lparr>ESCAPE = 27, ENTER = 13\<rparr>"
       and self = "construct JUndefined JUndefined JUndefined JNull"]
    onSuppressKeyNavigation_last_wins
    [where evts = "[JObject [(''bubbles'', JBool True)], JObject [(''suppress'', JBool True)]]"
       and v = "JBool True" and c = quiet and ks = "\<lparr>ESCAPE = 27, ENTER = 13\<rparr>"
       and self = "construct JUndefined JUndefined JUndefined JNull"]
  by simp





text \<open>
  C5. \<open>suppressContainerKeyboardNavigation(suppress, node)\<close> makes one call of \<open>on.emit\<close>, and
  no other: the event is named \<open>onSuppressKeyNavigation\<close>, has \<open>bubbles\<close> and \<open>cancelable\<close>
  set to \<open>true\<close> and carries the given \<open>suppress\<close>; it is emitted from \<open>node\<close> when a node (an
  object) is given, and from \<open>this.domNode\<close> when the argument is left out. The operation
  ends as \<open>on.emit\<close> ends.
\<close>

theorem suppressContainerKeyboardNavigation_emits:
  "effects (suppressContainerKeyboardNavigation c self suppress node) =
     [Emit (if truthy node then node else domNode self) ''onSuppressKeyNavigation''
        (JObject [(''bubbles'', JBool True), (''cancelable'', JBool True),
                  (''suppress'', suppress)])]
   \<and> (\<exists>target payload.
        effects (suppressContainerKeyboardNavigation c self suppress (JObject ps)) =
          [Emit target ''onSuppressKeyNavigation'' payload]
        \<and> target = JObject ps
        \<and> member payload ''bubbles'' = Inr (JBool True)
        \<and> member payload ''cancelable'' = Inr (JBool True)
        \<and> member payload ''suppress'' = Inr suppress)
   \<and> (\<exists>target payload.
        effects (suppressContainerKeyboardNavigation c self suppress JUndefined) =
          [Emit target ''onSuppressKeyNavigation'' payload]
        \<and> target = domNode self
        \<and> member payload ''bubbles'' = Inr (JBool True)
        \<and> member payload ''cancelable'' = Inr (JBool True)
        \<and> member payload ''suppress'' = Inr suppress)
   \<and> final (suppressContainerKeyboardNavigation c self suppress node) =
       fst (emit c (if truthy node then node else domNode self) ''onSuppressKeyNavigation''
              (JObject [(''bubbles'', JBool True), (''cancelable'', JBool True),
                        (''suppress'', suppress)]) self)
   \<and> raised (suppressContainerKeyboardNavigation c self suppress node) =
       snd (emit c (if truthy node then node else domNode self) ''onSuppressKeyNavigation''
              (JObject [(''bubbles'', JBool True), (''cancelable'', JBool True),
                        (''suppress'', suppress)]) self)"
  by (simp add: suppressContainerKeyboardNavigation_def ends_with_def)

text \<open>
  C6. In the effects of one call of \<open>onKeyPress\<close> or of \<open>onValueEntryKeyPress\<close>, a stop of
  the event comes before every call of a callback; and no callback is called without the
  event having been stopped first.
\<close>

theorem stop_precedes_callback:
  assumes "es = effects (onKeyPress c self e) \<or> es = effects (onValueEntryKeyPress c ks self e)"
  shows "(\<forall>i j. i < length es \<and> j < length es \<and> is_Stop (es ! i) \<and> is_Call (es ! j) \<longrightarrow> i < j)
         \<and> (\<forall>j. j < length es \<and> is_Call (es ! j) \<longrightarrow> (\<exists>i<j. is_Stop (es ! i)))"
proof -
  from assms consider "es = []" | "es = [Stop e]" | n where "es = [Stop e, Call n]"
    using handler_effects_shape by blast
  then show ?thesis
  proof cases
    case 1
    then show ?thesis by simp
  next
    case 2
    then show ?thesis by (auto simp: less_Suc_eq)
  next
    case 3
    then show ?thesis by (auto simp: nth_Cons split: nat.splits)
  qed
qed

theorem stop_precedes_callback_witness:
  "is_Stop (effects (onValueEntryKeyPress quiet \<lparr>ESCAPE = 27, ENTER = 13\<rparr>
      (construct JUndefined (JFunction 1) (JFunction 2) JNull)
      (JObject [(''keyCode'', JNum 27)])) ! 0)
   \<and> is_Call (effects (onValueEntryKeyPress quiet \<lparr>ESCAPE = 27, ENTER = 13\<rparr>
      (construct JUndefined (JFunction 1) (JFunction 2) JNull)
      (JObject [(''keyCode'', JNum 27)])) ! 1)
   \<and> length (effects (onValueEntryKeyPress quiet \<lparr>ESCAPE = 27, ENTER = 13\<rparr>
      (construct JUndefined (JFunction 1) (JFunction 2) JNull)
      (JObject [(''keyCode'', JNum 27)]))) = 2
   \<and> (0::nat) < 1"
  using stop_precedes_callback
    [where es = "effects (onValueEntryKeyPress quiet \<lparr>ESCAPE = 27, ENTER = 13\<rparr>
      (construct JUndefined (JFunction 1) (JFunction 2) JNull)
      (JObject [(''keyCode'', JNum 27)]))"
      and c = quiet and self = "construct JUndefined (JFunction 1) (JFunction 2) JNull"
      and e = "JObject [(''keyCode'', JNum 27)]" and ks = "\<lparr>ESCAPE = 27, ENTER = 13\<rparr>"]
  by (simp add: onValueEntryKeyPress_effects key_matches_object construct_def)

text \<open>
  C7. For every click event, \<open>suppressFocusRequest\<close> stops the event, whatever the value of
  the flag \<open>suppressKeyNavigation\<close> of the widget, and leaves the widget, the flag with it,
  as it was. A click event is an object; the source's guard \<open>evt &&\<close> lets every object
  through.
\<close>

theorem suppressFocusRequest_stops:
  "effects (suppressFocusRequest self (JObject ps)) = [Stop (JObject ps)]
   \<and> final (suppressFocusRequest self (JObject ps)) = self
   \<and> suppressKeyNavigation (final (suppressFocusRequest self (JObject ps)))
       = suppressKeyNavigation self
   \<and> raised (suppressFocusRequest self (JObject ps)) = None"
  by (simp add: suppressFocusRequest_def returns_def)







text \<open>
  C10, amended. The mixin itself stores only booleans in \<open>suppressKeyNavigation\<close>: \<open>false\<close>
  at construction, a strict comparison in \<open>onSuppressKeyNavigation\<close>. So, when no callback,
  no listener of the emitted event and no inherited handler stores anything but a boolean
  in it, the flag is a boolean after every sequence of operations on a new instance, with
  any arguments; and there the test \<open>=== false\<close> of the dispatch operations is the test that
  the flag is not \<open>true\<close> (and that it is falsy): an event is handed to the inherited handler
  exactly when suppression is not active.
\<close>

theorem suppressKeyNavigation_always_boolean:
  assumes "\<forall>f w. (\<exists>b. suppressKeyNavigation w = JBool b) \<longrightarrow>
                 (\<exists>b. suppressKeyNavigation (fst (callback c f w)) = JBool b)"
    and "\<forall>t n p w. (\<exists>b. suppressKeyNavigation w = JBool b) \<longrightarrow>
                 (\<exists>b. suppressKeyNavigation (fst (emit c t n p w)) = JBool b)"
    and "\<forall>m a w. (\<exists>b. suppressKeyNavigation w = JBool b) \<longrightarrow>
                 (\<exists>b. suppressKeyNavigation (fst (inherited c m a w)) = JBool b)"
  shows "(\<exists>b. suppressKeyNavigation (fst (run c ks (construct edit cancel save node) ops)) = JBool b)
   \<and> (suppressKeyNavigation (fst (run c ks (construct edit cancel save node) ops)) = JBool False)
       = (suppressKeyNavigation (fst (run c ks (construct edit cancel save node) ops)) \<noteq> JBool True)
   \<and> (suppressKeyNavigation (fst (run c ks (construct edit cancel save node) ops)) = JBool False)
       = (\<not> truthy (suppressKeyNavigation (fst (run c ks (construct edit cancel save node) ops))))
   \<and> (effects (onContainerKeypress c (fst (run c ks (construct edit cancel save node) ops)) evt)
        = [Inherited ''_onContainerKeypress'' evt])
       = (suppressKeyNavigation (fst (run c ks (construct edit cancel save node) ops)) \<noteq> JBool True)
   \<and> (effects (onContainerKeydown c (fst (run c ks (construct edit cancel save node) ops)) evt)
        = [Inherited ''_onContainerKeydown'' evt])
       = (suppressKeyNavigation (fst (run c ks (construct edit cancel save node) ops)) \<noteq> JBool True)"
proof -
  let ?w = "fst (run c ks (construct edit cancel save node) ops)"
  have "suppressKeyNavigation (construct edit cancel save node) = JBool False"
    by (simp add: construct_def)
  then have "\<exists>b. suppressKeyNavigation (construct edit cancel save node) = JBool b"
    by (rule exI)
  with assms have bool: "\<exists>b. suppressKeyNavigation ?w = JBool b"
    by (rule run_flag_boolean)
  then obtain b where b: "suppressKeyNavigation ?w = JBool b"
    by blast
  have "(suppressKeyNavigation ?w = JBool False) = (suppressKeyNavigation ?w \<noteq> JBool True)"
    and "(suppressKeyNavigation ?w = JBool False) = (\<not> truthy (suppressKeyNavigation ?w))"
    and "(effects (onContainerKeypress c ?w evt) = [Inherited ''_onContainerKeypress'' evt])
          = (suppressKeyNavigation ?w \<noteq> JBool True)"
    and "(effects (onContainerKeydown c ?w evt) = [Inherited ''_onContainerKeydown'' evt])
          = (suppressKeyNavigation ?w \<noteq> JBool True)"
    by (simp_all add: b onContainerKeypress_def onContainerKeydown_def returns_def ends_with_def)
  with bool show ?thesis
    by blast
qed

theorem suppressKeyNavigation_always_boolean_witness:
  "suppressKeyNavigation
     (fst (run quiet \<lparr>ESCAPE = 27, ENTER = 13\<rparr>
        (construct (JFunction 0) JUndefined JUndefined JNull)
        [OnSuppressKeyNavigation (JObject [(''suppress'', JBool True)]),
         OnKeyPress (JObject [(''ctrlKey'', JBool True), (''charCode'', JNum 101)])]))
     = JBool True
   \<and> effects (onContainerKeydown quiet
        (fst (run quiet \<lparr>ESCAPE = 27, ENTER = 13\<rparr>
           (construct (JFunction 0) JUndefined JUndefined JNull)
           [OnSuppressKeyNavigation (JObject [(''suppress'', JBool True)]),
            OnKeyPress (JObject [(''ctrlKey'', JBool True), (''charCode'', JNum 101)])]))
        (JObject [(''keyCode'', JNum 40)])) = []"
  using suppressKeyNavigation_always_boolean
    [where c = quiet and ks = "\<lparr>ESCAPE = 27, ENTER = 13\<rparr>"
       and edit = "JFunction 0" and cancel = JUndefined and save = JUndefined and node = JNull
       and ops = "[OnSuppressKeyNavigation (JObject [(''suppress'', JBool True)]),
         OnKeyPress (JObject [(''ctrlKey'', JBool True), (''charCode'', JNum 101)])]"
       and evt = "JObject [(''keyCode'', JNum 40)]"]
  by (simp add: quiet_def quiet_callback_def quiet_emit_def quiet_inherited_def
        onKeyPress_final onSuppressKeyNavigation_def onContainerKeydown_def returns_def
        invoke_def construct_def Let_def)

text \<open>
  Without the condition on the collaborators the invariant fails: after \<open>onKeyPress\<close> with a
  callback that stores the string \<open>editing\<close> in the flag, the flag is no boolean, and
  \<open>_onContainerKeydown\<close> forwards nothing although the flag is not \<open>true\<close>.
\<close>

theorem flag_not_boolean_after_callback:
  "suppressKeyNavigation
     (fst (run editing \<lparr>ESCAPE = 27, ENTER = 13\<rparr>
        (construct (JFunction 0) JUndefined JUndefined JNull)
        [OnKeyPress (JObject [(''ctrlKey'', JBool True), (''charCode'', JNum 101)])]))
     = JStr ''editing''
   \<and> suppressKeyNavigation
     (fst (run editing \<lparr>ESCAPE = 27, ENTER = 13\<rparr>
        (construct (JFunction 0) JUndefined JUndefined JNull)
        [OnKeyPress (JObject [(''ctrlKey'', JBool True), (''charCode'', JNum 101)])]))
     \<noteq> JBool True
   \<and> effects (onContainerKeydown editing
        (fst (run editing \<lparr>ESCAPE = 27, ENTER = 13\<rparr>
           (construct (JFunction 0) JUndefined JUndefined JNull)
           [OnKeyPress (JObject [(''ctrlKey'', JBool True), (''charCode'', JNum 101)])]))
        (JObject [(''keyCode'', JNum 40)])) = []"
  by (simp add: onKeyPress_final onContainerKeydown_def returns_def construct_def invoke_def
        editing_def editing_callback_def Let_def)

end
